theory Spec2Isabelle
  imports Main
begin

section \<open>Data model of the generated query bindings\<close>

text \<open>
  The repository holds two generated modules, \<^verbatim>\<open>SessionDetailsQuery.graphql.ts\<close> and
  \<^verbatim>\<open>ViewerContextRefetchQuery.graphql.ts\<close>, and a container build file. Each module
  exports a variables type, a response data type and a constant \<^verbatim>\<open>node\<close> of type
  \<^verbatim>\<open>ConcreteRequest\<close>. The modules are pure data: object literals become records and
  datatypes, \<^verbatim>\<open>null\<close> becomes \<open>None\<close>, and the local variables \<^verbatim>\<open>v0\<close>, \<^verbatim>\<open>v1\<close>, ...
  of each module become constants that the trees mention by name, as the source does.
\<close>

subsection \<open>JSON values\<close>

text \<open>
  A parsed JSON value. An object is an association list of its members in document
  order; \<open>member\<close> reads a key and is \<open>None\<close> where JavaScript gives \<^verbatim>\<open>undefined\<close>.
\<close>

datatype json =
    JNull
  | JBool bool
  | JNum int
  | JStr string
  | JArr "json list"
  | JObj "(string \<times> json) list"

definition member :: "(string \<times> json) list \<Rightarrow> string \<Rightarrow> json option" where
  "member kvs k = map_of kvs k"

subsection \<open>Selection trees\<close>

text \<open>
  An argument of a field is either bound to a variable of the operation or a literal.
  A literal keeps the source token of its value (\<^verbatim>\<open>0.5\<close>).
\<close>

datatype argument =
    Variable (arg_name: string) (variableName: string)
  | Literal (arg_name: string) (lit_value: string)

text \<open>
  The node kinds that occur in the two modules. The constructor is the \<^verbatim>\<open>kind\<close> member;
  the other members follow in the order of the source (alphabetical, \<^verbatim>\<open>kind\<close> left out):
  \<^item> \<open>ScalarField alias args name storageKey\<close>
  \<^item> \<open>LinkedField alias args concreteType name plural selections storageKey\<close>
  \<^item> \<open>InlineFragment selections type abstractKey\<close>
  \<^item> \<open>TypeDiscriminator abstractKey\<close>
  \<^item> \<open>FragmentSpread args name\<close>
\<close>

datatype selection =
    ScalarField "string option" "argument list option" string "string option"
  | LinkedField "string option" "argument list option" "string option" string bool
      "selection list" "string option"
  | InlineFragment "selection list" string "string option"
  | TypeDiscriminator string
  | FragmentSpread "argument list option" string

record local_argument =
  defaultValue :: "json option"
  la_kind :: string
  la_name :: string

record reader_fragment =
  fragment_argumentDefinitions :: "local_argument list"
  fragment_kind :: string
  fragment_metadata :: "(string \<times> json) list option"
  fragment_name :: string
  fragment_selections :: "selection list"
  fragment_type :: string
  fragment_abstractKey :: "string option"

record normalization_operation =
  operation_argumentDefinitions :: "local_argument list"
  operation_kind :: string
  operation_name :: string
  operation_selections :: "selection list"

record request_parameters =
  cacheID :: string
  params_id :: "string option"
  params_metadata :: "(string \<times> json) list option"
  params_name :: string
  operationKind :: string
  params_text :: string

record concrete_request =
  fragment :: reader_fragment
  request_kind :: string
  operation :: normalization_operation
  params :: request_parameters

subsection \<open>Exported TypeScript types\<close>

text \<open>
  The type expressions of the \<^verbatim>\<open>$variables\<close> and \<^verbatim>\<open>$data\<close> exports. A property of an
  object type is its name, whether it is optional (\<^verbatim>\<open>?\<close>) and its type; \<open>TNullable t\<close> is
  \<^verbatim>\<open>t | null\<close>; \<open>TLiteralUnion\<close> is a union of string literals (\<^verbatim>\<open>AnnotatorKind\<close>);
  \<open>TFragmentRefs\<close> is \<^verbatim>\<open>FragmentRefs<...>\<close>; \<open>TNoVariables\<close> is
  \<^verbatim>\<open>Record<PropertyKey, never>\<close>.
\<close>

datatype ts_type =
    TString
  | TNumber
  | TLiteralUnion "string list"
  | TNullable ts_type
  | TReadonlyArray ts_type
  | TObject "(string \<times> bool \<times> ts_type) list"
  | TFragmentRefs "string list"
  | TNoVariables

record generated_module =
  variables_type :: ts_type
  data_type :: ts_type
  node :: concrete_request
  hash :: string

section \<open>SessionDetailsQuery\<close>

definition AnnotatorKind :: ts_type where
  "AnnotatorKind = TLiteralUnion [''HUMAN'', ''LLM'']"

definition SessionDetailsQuery_variables :: ts_type where
  "SessionDetailsQuery_variables = TObject [(''id'', False, TString)]"

definition SessionDetailsQuery_data :: ts_type where
  "SessionDetailsQuery_data =
    TObject [
      (''session'', False, TObject [
        (''latencyP50'', True, TNullable TNumber),
        (''numTraces'', True, TNumber),
        (''sessionId'', True, TString),
        (''tokenUsage'', True, TObject [
          (''completion'', False, TNumber),
          (''prompt'', False, TNumber),
          (''total'', False, TNumber)]),
        (''traces'', True, TObject [
          (''edges'', False, TReadonlyArray (TObject [
            (''trace'', False, TObject [
              (''rootSpan'', False, TNullable (TObject [
                (''attributes'', False, TString),
                (''context'', False, TObject [
                  (''spanId'', False, TString),
                  (''traceId'', False, TString)]),
                (''cumulativeTokenCountCompletion'', False, TNullable TNumber),
                (''cumulativeTokenCountPrompt'', False, TNullable TNumber),
                (''cumulativeTokenCountTotal'', False, TNullable TNumber),
                (''id'', False, TString),
                (''input'', False, TNullable (TObject [
                  (''value'', False, TString)])),
                (''latencyMs'', False, TNullable TNumber),
                (''output'', False, TNullable (TObject [
                  (''value'', False, TString)])),
                (''project'', False, TObject [
                  (''id'', False, TString)]),
                (''spanAnnotations'', False, TReadonlyArray (TObject [
                  (''annotatorKind'', False, AnnotatorKind),
                  (''explanation'', False, TNullable TString),
                  (''label'', False, TNullable TString),
                  (''name'', False, TString),
                  (''score'', False, TNullable TNumber)])),
                (''startTime'', False, TString)]))])]))])])]"

definition SessionDetailsQuery_v0 :: "local_argument list" where
  "SessionDetailsQuery_v0 =
    [\<lparr>defaultValue = None, la_kind = ''LocalArgument'', la_name = ''id''\<rparr>]"

definition SessionDetailsQuery_v1 :: "argument list" where
  "SessionDetailsQuery_v1 = [Variable ''id'' ''id'']"

definition SessionDetailsQuery_v2 :: selection where
  "SessionDetailsQuery_v2 = ScalarField None None ''id'' None"

definition SessionDetailsQuery_v3 :: "selection list" where
  "SessionDetailsQuery_v3 = [ScalarField None None ''value'' None]"

definition SessionDetailsQuery_v4 :: selection where
  "SessionDetailsQuery_v4 =
    InlineFragment [
      ScalarField None None ''numTraces'' None,
      LinkedField None None (Some ''TokenUsage'') ''tokenUsage'' False [
        ScalarField None None ''total'' None,
        ScalarField None None ''completion'' None,
        ScalarField None None ''prompt'' None] None,
      ScalarField None None ''sessionId'' None,
      ScalarField (Some ''latencyP50'') (Some [Literal ''probability'' ''0.5''])
        ''traceLatencyMsQuantile'' (Some ''traceLatencyMsQuantile(probability:0.5)''),
      LinkedField None None (Some ''TraceConnection'') ''traces'' False [
        LinkedField None None (Some ''TraceEdge'') ''edges'' True [
          LinkedField (Some ''trace'') None (Some ''Trace'') ''node'' False [
            LinkedField None None (Some ''Span'') ''rootSpan'' False [
              SessionDetailsQuery_v2,
              ScalarField None None ''attributes'' None,
              LinkedField None None (Some ''Project'') ''project'' False [
                SessionDetailsQuery_v2] None,
              LinkedField None None (Some ''SpanIOValue'') ''input'' False
                SessionDetailsQuery_v3 None,
              LinkedField None None (Some ''SpanIOValue'') ''output'' False
                SessionDetailsQuery_v3 None,
              ScalarField None None ''cumulativeTokenCountTotal'' None,
              ScalarField None None ''cumulativeTokenCountCompletion'' None,
              ScalarField None None ''cumulativeTokenCountPrompt'' None,
              ScalarField None None ''latencyMs'' None,
              ScalarField None None ''startTime'' None,
              LinkedField None None (Some ''SpanAnnotation'') ''spanAnnotations'' True [
                ScalarField None None ''name'' None,
                ScalarField None None ''label'' None,
                ScalarField None None ''score'' None,
                ScalarField None None ''explanation'' None,
                ScalarField None None ''annotatorKind'' None] None,
              LinkedField None None (Some ''SpanContext'') ''context'' False [
                ScalarField None None ''traceId'' None,
                ScalarField None None ''spanId'' None] None] None] None] None] None]
      ''ProjectSession'' None"

definition SessionDetailsQuery_text :: string where
  "SessionDetailsQuery_text = ''query SessionDetailsQuery(\<newline>  $id: GlobalID!\<newline>) {\<newline>  session: node(id: $id) {\<newline>    __typename\<newline>    ... on ProjectSession {\<newline>      numTraces\<newline>      tokenUsage {\<newline>        total\<newline>        completion\<newline>        prompt\<newline>      }\<newline>      sessionId\<newline>      latencyP50: traceLatencyMsQuantile(probability: 0.5)\<newline>      traces {\<newline>        edges {\<newline>          trace: node {\<newline>            rootSpan {\<newline>              id\<newline>              attributes\<newline>              project {\<newline>                id\<newline>              }\<newline>              input {\<newline>                value\<newline>              }\<newline>              output {\<newline>                value\<newline>              }\<newline>              cumulativeTokenCountTotal\<newline>              cumulativeTokenCountCompletion\<newline>              cumulativeTokenCountPrompt\<newline>              latencyMs\<newline>              startTime\<newline>              spanAnnotations {\<newline>                name\<newline>                label\<newline>                score\<newline>                explanation\<newline>                annotatorKind\<newline>              }\<newline>              context {\<newline>                traceId\<newline>                spanId\<newline>              }\<newline>            }\<newline>          }\<newline>        }\<newline>      }\<newline>    }\<newline>    __isNode: __typename\<newline>    id\<newline>  }\<newline>}\<newline>''"

definition SessionDetailsQuery_node :: concrete_request where
  "SessionDetailsQuery_node = \<lparr>
    fragment = \<lparr>
      fragment_argumentDefinitions = SessionDetailsQuery_v0,
      fragment_kind = ''Fragment'',
      fragment_metadata = None,
      fragment_name = ''SessionDetailsQuery'',
      fragment_selections = [
        LinkedField (Some ''session'') (Some SessionDetailsQuery_v1) None ''node'' False [
          SessionDetailsQuery_v4] None],
      fragment_type = ''Query'',
      fragment_abstractKey = None\<rparr>,
    request_kind = ''Request'',
    operation = \<lparr>
      operation_argumentDefinitions = SessionDetailsQuery_v0,
      operation_kind = ''Operation'',
      operation_name = ''SessionDetailsQuery'',
      operation_selections = [
        LinkedField (Some ''session'') (Some SessionDetailsQuery_v1) None ''node'' False [
          ScalarField None None ''__typename'' None,
          SessionDetailsQuery_v4,
          TypeDiscriminator ''__isNode'',
          SessionDetailsQuery_v2] None]\<rparr>,
    params = \<lparr>
      cacheID = ''44f2433d50767bdcd9eb7c62d1f2cbb7'',
      params_id = None,
      params_metadata = Some [],
      params_name = ''SessionDetailsQuery'',
      operationKind = ''query'',
      params_text = SessionDetailsQuery_text\<rparr>\<rparr>"

definition SessionDetailsQuery :: generated_module where
  "SessionDetailsQuery = \<lparr>
    variables_type = SessionDetailsQuery_variables,
    data_type = SessionDetailsQuery_data,
    node = SessionDetailsQuery_node,
    hash = ''4cf37bedf6f6d9f7b373d019055a89f4''\<rparr>"

section \<open>ViewerContextRefetchQuery\<close>

definition ViewerContextRefetchQuery_variables :: ts_type where
  "ViewerContextRefetchQuery_variables = TNoVariables"

definition ViewerContextRefetchQuery_data :: ts_type where
  "ViewerContextRefetchQuery_data =
    TObject [('' $fragmentSpreads'', False, TFragmentRefs [''ViewerContext_viewer''])]"

definition ViewerContextRefetchQuery_v0 :: selection where
  "ViewerContextRefetchQuery_v0 = ScalarField None None ''id'' None"

definition ViewerContextRefetchQuery_v1 :: selection where
  "ViewerContextRefetchQuery_v1 = ScalarField None None ''name'' None"

definition ViewerContextRefetchQuery_text :: string where
  "ViewerContextRefetchQuery_text = ''query ViewerContextRefetchQuery {\<newline>  ...ViewerContext_viewer\<newline>}\<newline>\<newline>fragment APIKeysTableFragment on User {\<newline>  apiKeys {\<newline>    id\<newline>    name\<newline>    description\<newline>    createdAt\<newline>    expiresAt\<newline>  }\<newline>  id\<newline>}\<newline>\<newline>fragment ViewerContext_viewer on Query {\<newline>  viewer {\<newline>    id\<newline>    username\<newline>    email\<newline>    profilePictureUrl\<newline>    role {\<newline>      name\<newline>    }\<newline>    ...APIKeysTableFragment\<newline>  }\<newline>}\<newline>''"

definition ViewerContextRefetchQuery_node :: concrete_request where
  "ViewerContextRefetchQuery_node = \<lparr>
    fragment = \<lparr>
      fragment_argumentDefinitions = [],
      fragment_kind = ''Fragment'',
      fragment_metadata = None,
      fragment_name = ''ViewerContextRefetchQuery'',
      fragment_selections = [
        FragmentSpread None ''ViewerContext_viewer''],
      fragment_type = ''Query'',
      fragment_abstractKey = None\<rparr>,
    request_kind = ''Request'',
    operation = \<lparr>
      operation_argumentDefinitions = [],
      operation_kind = ''Operation'',
      operation_name = ''ViewerContextRefetchQuery'',
      operation_selections = [
        LinkedField None None (Some ''User'') ''viewer'' False [
          ViewerContextRefetchQuery_v0,
          ScalarField None None ''username'' None,
          ScalarField None None ''email'' None,
          ScalarField None None ''profilePictureUrl'' None,
          LinkedField None None (Some ''UserRole'') ''role'' False [
            ViewerContextRefetchQuery_v1] None,
          LinkedField None None (Some ''UserApiKey'') ''apiKeys'' True [
            ViewerContextRefetchQuery_v0,
            ViewerContextRefetchQuery_v1,
            ScalarField None None ''description'' None,
            ScalarField None None ''createdAt'' None,
            ScalarField None None ''expiresAt'' None] None] None]\<rparr>,
    params = \<lparr>
      cacheID = ''4c8790abe3ec8e077913422cb62c6b3f'',
      params_id = None,
      params_metadata = Some [],
      params_name = ''ViewerContextRefetchQuery'',
      operationKind = ''query'',
      params_text = ViewerContextRefetchQuery_text\<rparr>\<rparr>"

definition ViewerContextRefetchQuery :: generated_module where
  "ViewerContextRefetchQuery = \<lparr>
    variables_type = ViewerContextRefetchQuery_variables,
    data_type = ViewerContextRefetchQuery_data,
    node = ViewerContextRefetchQuery_node,
    hash = ''0fda3314d35e251b11f0ed180df72f44''\<rparr>"

text \<open>The generated modules of the repository.\<close>

definition bindings :: "generated_module list" where
  "bindings = [SessionDetailsQuery, ViewerContextRefetchQuery]"

section \<open>Field paths\<close>

text \<open>
  The key under which a field appears in a response is its alias when it has one and
  its name otherwise.
\<close>

definition response_key :: "string option \<Rightarrow> string \<Rightarrow> string" where
  "response_key alias name = (case alias of Some a \<Rightarrow> a | None \<Rightarrow> name)"

text \<open>
  The field paths of a selection: a field contributes its response key, a linked field
  also the paths below it, an inline fragment the paths of its selections at the level
  where it stands, a type discriminator its key, and a fragment spread (whose fields live
  in another module) nothing.
\<close>

fun selection_paths :: "selection \<Rightarrow> string list list" where
  "selection_paths (ScalarField alias args name storageKey) = [[response_key alias name]]"
| "selection_paths (LinkedField alias args concreteType name plural sels storageKey) =
     [response_key alias name] #
       map ((#) (response_key alias name)) (concat (map selection_paths sels))"
| "selection_paths (InlineFragment sels ty abstractKey) = concat (map selection_paths sels)"
| "selection_paths (TypeDiscriminator abstractKey) = [[abstractKey]]"
| "selection_paths (FragmentSpread args name) = []"

definition tree_paths :: "selection list \<Rightarrow> string list list" where
  "tree_paths sels = concat (map selection_paths sels)"

fun selection_spreads :: "selection \<Rightarrow> string list" where
  "selection_spreads (FragmentSpread args name) = [name]"
| "selection_spreads (LinkedField alias args concreteType name plural sels storageKey) =
     concat (map selection_spreads sels)"
| "selection_spreads (InlineFragment sels ty abstractKey) = concat (map selection_spreads sels)"
| "selection_spreads (ScalarField alias args name storageKey) = []"
| "selection_spreads (TypeDiscriminator abstractKey) = []"

text \<open>
  The field paths of a type expression: the property names of its object types, read
  through \<^verbatim>\<open>| null\<close> and \<^verbatim>\<open>ReadonlyArray\<close>. The property \<^verbatim>\<open>" $fragmentSpreads"\<close>
  is no response field: it names the fragments spread at that level.
\<close>

fun type_paths :: "ts_type \<Rightarrow> string list list"
  and props_paths :: "(string \<times> bool \<times> ts_type) list \<Rightarrow> string list list" where
  "type_paths (TObject props) = props_paths props"
| "type_paths (TNullable t) = type_paths t"
| "type_paths (TReadonlyArray t) = type_paths t"
| "type_paths TString = []"
| "type_paths TNumber = []"
| "type_paths (TLiteralUnion vs) = []"
| "type_paths (TFragmentRefs fs) = []"
| "type_paths TNoVariables = []"
| "props_paths [] = []"
| "props_paths ((name, optional, TFragmentRefs fs) # ps) = props_paths ps"
| "props_paths ((name, optional, t) # ps) =
     ([name] # map ((#) name) (type_paths t)) @ props_paths ps"

fun type_spreads :: "ts_type \<Rightarrow> string list"
  and props_spreads :: "(string \<times> bool \<times> ts_type) list \<Rightarrow> string list" where
  "type_spreads (TObject props) = props_spreads props"
| "type_spreads (TNullable t) = type_spreads t"
| "type_spreads (TReadonlyArray t) = type_spreads t"
| "type_spreads (TFragmentRefs fs) = fs"
| "type_spreads TString = []"
| "type_spreads TNumber = []"
| "type_spreads (TLiteralUnion vs) = []"
| "type_spreads TNoVariables = []"
| "props_spreads [] = []"
| "props_spreads ((name, optional, t) # ps) = type_spreads t @ props_spreads ps"

section \<open>Reading the wire query text\<close>

text \<open>
  The text of a request is a GraphQL document. It is read in two passes. The lexer
  splits it into names and punctuators; blanks, line ends and commas separate tokens and
  are dropped. A name is a maximal run of characters that are neither ignored nor
  punctuators.
\<close>

datatype token = Name string | Punct char

definition is_ignored :: "char \<Rightarrow> bool" where
  "is_ignored c = (c \<in> set [CHR '' '', CHR ''\<newline>'', CHR '','', CHR 0x09, CHR 0x0D])"

definition is_punctuator :: "char \<Rightarrow> bool" where
  "is_punctuator c = (c \<in> set ''!$&().:=@[]{|}'')"

definition flush :: "string \<Rightarrow> token list" where
  "flush acc = (if acc = [] then [] else [Name (rev acc)])"

fun lex_from :: "string \<Rightarrow> string \<Rightarrow> token list" where
  "lex_from acc [] = flush acc"
| "lex_from acc (c # cs) =
     (if is_ignored c then flush acc @ lex_from [] cs
      else if is_punctuator c then flush acc @ Punct c # lex_from [] cs
      else lex_from (c # acc) cs)"

definition lex :: "string \<Rightarrow> token list" where
  "lex s = lex_from [] s"

text \<open>
  The scanner walks the tokens once and records what the document declares:
  \<^item> \<open>FieldAt d p\<close>: definition \<open>d\<close> (\<open>None\<close> the operation, \<open>Some f\<close> the fragment
    \<open>f\<close>) selects a field whose response keys from the root of \<open>d\<close> are \<open>p\<close>;
  \<^item> \<open>SpreadAt d p f\<close>: definition \<open>d\<close> spreads fragment \<open>f\<close> below \<open>p\<close>;
  \<^item> \<open>VarDeclared v\<close>: \<open>$v\<close> in the variable definitions of the operation header;
  \<^item> \<open>VarBound v\<close>: \<open>$v\<close> given as the value of an argument inside a selection set.

  Its state: the definition being read, the names of the header read so far, the path
  prefixes of the open selection sets (innermost first), the response key of the latest
  field, whether the walk is inside parentheses, whether an alias colon was just read,
  the dots of a spread read so far, the position inside a spread, and whether a dollar
  sign was just read.
\<close>

datatype event =
    FieldAt "string option" "string list"
  | SpreadAt "string option" "string list" string
  | VarDeclared string
  | VarBound string

datatype spread_mode = NoSpread | AfterDots | AfterOn

record scan_state =
  defn :: "string option"
  header :: "string list"
  stack :: "string list list"
  last_key :: "string option"
  in_parens :: bool
  after_colon :: bool
  dots :: nat
  spread :: spread_mode
  dollar :: bool
  events :: "event list"

definition initial :: scan_state where
  "initial = \<lparr>defn = None, header = [], stack = [], last_key = None, in_parens = False,
     after_colon = False, dots = 0, spread = NoSpread, dollar = False, events = []\<rparr>"

definition header_defn :: "string list \<Rightarrow> string option" where
  "header_defn h =
     (case h of a # b # _ \<Rightarrow> if a = ''fragment'' then Some b else None | _ \<Rightarrow> None)"

definition open_brace :: "scan_state \<Rightarrow> scan_state" where
  "open_brace st =
     (case stack st of
        [] \<Rightarrow> st\<lparr>defn := header_defn (header st), header := [], stack := [[]],
                last_key := None\<rparr>
      | pre # _ \<Rightarrow>
          st\<lparr>stack := (case last_key st of None \<Rightarrow> pre | Some k \<Rightarrow> pre @ [k]) # stack st,
             last_key := None\<rparr>)"

definition scan_punct :: "char \<Rightarrow> scan_state \<Rightarrow> scan_state" where
  "scan_punct c st =
     (if c = CHR ''('' then st\<lparr>in_parens := True\<rparr>
      else if c = CHR '')'' then st\<lparr>in_parens := False\<rparr>
      else if c = CHR ''$'' then st\<lparr>dollar := True\<rparr>
      else if in_parens st then st
      else if c = CHR ''.'' then
        (if dots st = 2 then st\<lparr>dots := 0, spread := AfterDots\<rparr>
         else st\<lparr>dots := Suc (dots st)\<rparr>)
      else if c = CHR '':'' then st\<lparr>after_colon := True\<rparr>
      else if c = CHR ''{'' then open_brace st
      else if c = CHR ''}'' then st\<lparr>stack := tl (stack st), last_key := None\<rparr>
      else st)"

definition scan_name :: "string \<Rightarrow> scan_state \<Rightarrow> scan_state" where
  "scan_name n st =
     (if dollar st then
        st\<lparr>dollar := False,
           events := (if stack st = [] then VarDeclared n else VarBound n) # events st\<rparr>
      else if in_parens st then st
      else case stack st of
        [] \<Rightarrow> st\<lparr>header := header st @ [n]\<rparr>
      | pre # _ \<Rightarrow>
         (case spread st of
            AfterDots \<Rightarrow>
              if n = ''on'' then st\<lparr>spread := AfterOn\<rparr>
              else st\<lparr>spread := NoSpread, events := SpreadAt (defn st) pre n # events st\<rparr>
          | AfterOn \<Rightarrow> st\<lparr>spread := NoSpread, last_key := None\<rparr>
          | NoSpread \<Rightarrow>
              if after_colon st then st\<lparr>after_colon := False\<rparr>
              else st\<lparr>last_key := Some n,
                      events := FieldAt (defn st) (pre @ [n]) # events st\<rparr>))"

fun scan :: "token list \<Rightarrow> scan_state \<Rightarrow> scan_state" where
  "scan [] st = st"
| "scan (Name n # ts) st = scan ts (scan_name n st)"
| "scan (Punct c # ts) st = scan ts (scan_punct c st)"

definition parse_events :: "string \<Rightarrow> event list" where
  "parse_events s = rev (events (scan (lex s) initial))"

text \<open>
  The field paths a document declares for its operation: the fields of the operation
  itself and, below each spread, the fields of the fragment spread there. The fuel bounds
  the depth of spreads inside spreads; a document has fewer fragments than events.
\<close>

fun expand :: "nat \<Rightarrow> event list \<Rightarrow> string option \<Rightarrow> string list \<Rightarrow> string list list" where
  "expand 0 evs d pre = []"
| "expand (Suc k) evs d pre =
     concat (map (\<lambda>e. case e of
         FieldAt d' p \<Rightarrow> if d' = d then [pre @ p] else []
       | SpreadAt d' p f \<Rightarrow> if d' = d then expand k evs (Some f) (pre @ p) else []
       | VarDeclared v \<Rightarrow> []
       | VarBound v \<Rightarrow> []) evs)"

definition events_paths :: "event list \<Rightarrow> string list list" where
  "events_paths evs = expand (Suc (length evs)) evs None []"

definition text_paths :: "string \<Rightarrow> string list list" where
  "text_paths s = events_paths (parse_events s)"

fun bound_variable :: "event \<Rightarrow> string list" where
  "bound_variable (VarBound v) = [v]"
| "bound_variable e = []"

fun declared_variable :: "event \<Rightarrow> string list" where
  "declared_variable (VarDeclared v) = [v]"
| "declared_variable e = []"

definition binding_sites :: "string \<Rightarrow> string list" where
  "binding_sites s = concat (map bound_variable (parse_events s))"

definition text_variables :: "string \<Rightarrow> string list" where
  "text_variables s = concat (map declared_variable (parse_events s))"

section \<open>Consuming a response\<close>

text \<open>
  The repository holds the generated descriptors only. The execution engine that reads
  them is the library \<^verbatim>\<open>relay-runtime\<close>, which is not part of it; what it does with a
  response is taken from the specification.
\<close>

text \<open>
  Modelled from the spec: the shape-validation failures of the execution engine. A
  malformed response is surfaced "to the execution engine as shape-validation
  failures"; here a failure says which kind of value a linked field should have had.
\<close>

datatype shape_error = ExpectedObject | ExpectedList

text \<open>
  Modelled from the spec: the projection of a response through a selection tree, which
  the execution engine performs. The specification says: the engine "reads the selection
  trees to normalize the JSON response into a local store and to project
  fragment-scoped views back to UI consumers"; a concrete-type branch is "selected at
  response-processing time by a server-reported type tag"; for another type name the
  fields of the branch "must be absent/undefined in the projected view, not an error".

  \<open>project_selection s obj\<close> gives the members that selection \<open>s\<close> contributes to the view
  of the response object \<open>obj\<close>: a scalar field its value under its response key when the
  response has one; a linked field the view of its value (\<^verbatim>\<open>null\<close> stays \<^verbatim>\<open>null\<close>, a plural
  field maps over the list); an inline fragment the members of its selections when the
  response object reports the fragment's type under \<^verbatim>\<open>__typename\<close>, and none otherwise;
  a type discriminator and a fragment spread none. The projection fails when the value of
  a linked field is neither \<^verbatim>\<open>null\<close> nor of the kind the field declares.
\<close>

fun project_selection :: "selection \<Rightarrow> (string \<times> json) list \<Rightarrow> shape_error + (string \<times> json) list"
  and project_selections :: "selection list \<Rightarrow> (string \<times> json) list \<Rightarrow> shape_error + (string \<times> json) list"
  and project_value :: "bool \<Rightarrow> selection list \<Rightarrow> json \<Rightarrow> shape_error + json"
  and project_items :: "selection list \<Rightarrow> json list \<Rightarrow> shape_error + json list" where
  "project_selection (ScalarField alias args name storageKey) obj =
     (case member obj (response_key alias name) of
        None \<Rightarrow> Inr []
      | Some v \<Rightarrow> Inr [(response_key alias name, v)])"
| "project_selection (LinkedField alias args concreteType name plural sels storageKey) obj =
     (case member obj (response_key alias name) of
        None \<Rightarrow> Inr []
      | Some v \<Rightarrow>
         (case project_value plural sels v of
            Inl e \<Rightarrow> Inl e
          | Inr w \<Rightarrow> Inr [(response_key alias name, w)]))"
| "project_selection (InlineFragment sels ty abstractKey) obj =
     (if member obj ''__typename'' = Some (JStr ty) then project_selections sels obj
      else Inr [])"
| "project_selection (TypeDiscriminator abstractKey) obj = Inr []"
| "project_selection (FragmentSpread args name) obj = Inr []"
| "project_selections [] obj = Inr []"
| "project_selections (s # ss) obj =
     (case project_selection s obj of
        Inl e \<Rightarrow> Inl e
      | Inr a \<Rightarrow>
         (case project_selections ss obj of
            Inl e \<Rightarrow> Inl e
          | Inr b \<Rightarrow> Inr (a @ b)))"
| "project_value plural sels JNull = Inr JNull"
| "project_value False sels (JObj obj) =
     (case project_selections sels obj of Inl e \<Rightarrow> Inl e | Inr view \<Rightarrow> Inr (JObj view))"
| "project_value True sels (JArr items) =
     (case project_items sels items of Inl e \<Rightarrow> Inl e | Inr views \<Rightarrow> Inr (JArr views))"
| "project_value False sels v = Inl ExpectedObject"
| "project_value True sels v = Inl ExpectedList"
| "project_items sels [] = Inr []"
| "project_items sels (x # xs) =
     (case project_value False sels x of
        Inl e \<Rightarrow> Inl e
      | Inr w \<Rightarrow>
         (case project_items sels xs of
            Inl e \<Rightarrow> Inl e
          | Inr ws \<Rightarrow> Inr (w # ws)))"

text \<open>
  Modelled from the spec: the projection of a whole response, which is an object, through
  the selections of a tree.
\<close>

definition project :: "selection list \<Rightarrow> json \<Rightarrow> shape_error + json" where
  "project sels response = project_value False sels response"

text \<open>
  Modelled from the spec: shape validation of a response against the exported response
  type. The validator, too, belongs to the execution engine outside the repository. The
  specification says: "response JSON missing a declared non-null field" is a
  shape-validation failure, and "a response JSON omitting \<^verbatim>\<open>total\<close> must be rejected by
  shape validation; a response including it as a number must pass". A value conforms to a
  type as in TypeScript's structural typing: a required property must be present, an
  optional one may be absent, \<^verbatim>\<open>null\<close> is accepted only by \<^verbatim>\<open>| null\<close>, and members that
  the type does not name are allowed.
\<close>

fun conforms :: "ts_type \<Rightarrow> json \<Rightarrow> bool"
  and props_conform :: "(string \<times> bool \<times> ts_type) list \<Rightarrow> (string \<times> json) list \<Rightarrow> bool" where
  "conforms TString v = (case v of JStr s \<Rightarrow> True | _ \<Rightarrow> False)"
| "conforms TNumber v = (case v of JNum n \<Rightarrow> True | _ \<Rightarrow> False)"
| "conforms (TLiteralUnion vs) v = (case v of JStr s \<Rightarrow> s \<in> set vs | _ \<Rightarrow> False)"
| "conforms (TNullable t) v = (v = JNull \<or> conforms t v)"
| "conforms (TReadonlyArray t) v = (case v of JArr xs \<Rightarrow> list_all (conforms t) xs | _ \<Rightarrow> False)"
| "conforms (TObject props) v = (case v of JObj obj \<Rightarrow> props_conform props obj | _ \<Rightarrow> False)"
| "conforms (TFragmentRefs fs) v = True"
| "conforms TNoVariables v = (v = JObj [])"
| "props_conform [] obj = True"
| "props_conform ((name, optional, t) # ps) obj =
     ((case member obj name of None \<Rightarrow> optional | Some v \<Rightarrow> conforms t v) \<and>
      props_conform ps obj)"


section \<open>Reading types and values along a path\<close>

text \<open>
  \<open>type_at t p\<close> is the type found in \<open>t\<close> along the property names \<open>p\<close>, read through
  \<^verbatim>\<open>| null\<close> and \<^verbatim>\<open>ReadonlyArray\<close>; \<open>properties\<close> gives the properties of an object type,
  \<open>other_properties k\<close> those not named \<open>k\<close>. \<open>value_at v p\<close> is the value found in the
  JSON value \<open>v\<close> along the keys \<open>p\<close>, and \<open>None\<close> where a key is absent.
\<close>

fun type_at :: "ts_type \<Rightarrow> string list \<Rightarrow> ts_type option" where
  "type_at t [] = Some t"
| "type_at (TObject ps) (k # ks) =
     (case map_of ps k of None \<Rightarrow> None | Some (optional, t) \<Rightarrow> type_at t ks)"
| "type_at (TNullable t) (k # ks) = type_at t (k # ks)"
| "type_at (TReadonlyArray t) (k # ks) = type_at t (k # ks)"
| "type_at t (k # ks) = None"

definition properties :: "ts_type option \<Rightarrow> (string \<times> bool \<times> ts_type) list" where
  "properties t = (case t of Some (TObject ps) \<Rightarrow> ps | _ \<Rightarrow> [])"

definition other_properties :: "string \<Rightarrow> ts_type option \<Rightarrow> (string \<times> bool \<times> ts_type) list" where
  "other_properties k t = filter (\<lambda>p. fst p \<noteq> k) (properties t)"


section \<open>Nodes of a selection tree\<close>

fun nodes :: "selection \<Rightarrow> selection list" where
  "nodes (LinkedField al args concreteType name plural sels storageKey) =
     LinkedField al args concreteType name plural sels storageKey # concat (map nodes sels)"
| "nodes (InlineFragment sels ty abstractKey) =
     InlineFragment sels ty abstractKey # concat (map nodes sels)"
| "nodes s = [s]"

definition tree_nodes :: "selection list \<Rightarrow> selection list" where
  "tree_nodes sels = concat (map nodes sels)"

text \<open>The nodes of both trees of a module.\<close>

definition module_nodes :: "generated_module \<Rightarrow> selection list" where
  "module_nodes m =
     tree_nodes (fragment_selections (fragment (node m))) @
     tree_nodes (operation_selections (operation (node m)))"

fun is_field :: "selection \<Rightarrow> bool" where
  "is_field (ScalarField al args name storageKey) = True"
| "is_field (LinkedField al args concreteType name plural sels storageKey) = True"
| "is_field s = False"

fun args_of :: "selection \<Rightarrow> argument list option" where
  "args_of (ScalarField al args name storageKey) = args"
| "args_of (LinkedField al args concreteType name plural sels storageKey) = args"
| "args_of (FragmentSpread args name) = args"
| "args_of s = None"

fun storageKey_of :: "selection \<Rightarrow> string option" where
  "storageKey_of (ScalarField al args name storageKey) = storageKey"
| "storageKey_of (LinkedField al args concreteType name plural sels storageKey) = storageKey"
| "storageKey_of s = None"

fun name_of :: "selection \<Rightarrow> string" where
  "name_of (ScalarField al args name storageKey) = name"
| "name_of (LinkedField al args concreteType name plural sels storageKey) = name"
| "name_of (FragmentSpread args name) = name"
| "name_of (InlineFragment sels ty abstractKey) = ty"
| "name_of (TypeDiscriminator abstractKey) = abstractKey"

subsection \<open>Storage keys\<close>

text \<open>
  The storage key a field has when all its arguments are literals: the field name
  followed by the arguments, each as \<^verbatim>\<open>name:value\<close>, separated by commas, in parentheses.
  A field without arguments, or with an argument bound to a variable, has none.
\<close>

fun join :: "string \<Rightarrow> string list \<Rightarrow> string" where
  "join sep [] = []"
| "join sep [x] = x"
| "join sep (x # y # ys) = x @ sep @ join sep (y # ys)"

fun serialize_literals :: "argument list \<Rightarrow> string list option" where
  "serialize_literals [] = Some []"
| "serialize_literals (Literal n v # as) =
     (case serialize_literals as of None \<Rightarrow> None | Some parts \<Rightarrow> Some ((n @ '':'' @ v) # parts))"
| "serialize_literals (Variable n v # as) = None"

definition literal_storageKey :: "string \<Rightarrow> argument list option \<Rightarrow> string option" where
  "literal_storageKey name args =
     (case args of
        None \<Rightarrow> None
      | Some as \<Rightarrow>
         (case serialize_literals as of
            None \<Rightarrow> None
          | Some parts \<Rightarrow> Some (name @ ''('' @ join '','' parts @ '')'')))"

fun is_literal :: "argument \<Rightarrow> bool" where
  "is_literal (Literal n v) = True"
| "is_literal (Variable n v) = False"

definition all_args_literal :: "selection \<Rightarrow> bool" where
  "all_args_literal s = (case args_of s of None \<Rightarrow> False | Some as \<Rightarrow> list_all is_literal as)"

subsection \<open>Variables\<close>

fun argument_variables :: "argument \<Rightarrow> string list" where
  "argument_variables (Variable n v) = [v]"
| "argument_variables (Literal n v) = []"

definition declared_names :: "generated_module \<Rightarrow> string list" where
  "declared_names m = map la_name (operation_argumentDefinitions (operation (node m)))"

text \<open>The names of the properties of a variables type.\<close>

definition variable_names :: "ts_type \<Rightarrow> string list" where
  "variable_names t = (case t of TObject ps \<Rightarrow> map fst ps | _ \<Rightarrow> [])"

text \<open>The variables that the arguments of the nodes of a tree are bound to.\<close>

definition tree_variables :: "selection list \<Rightarrow> string list" where
  "tree_variables sels =
     concat (map argument_variables
       (concat (map (\<lambda>s. case args_of s of None \<Rightarrow> [] | Some as \<Rightarrow> as) (tree_nodes sels))))"

definition is_hex :: "char \<Rightarrow> bool" where
  "is_hex c = (c \<in> set ''0123456789abcdef'')"

subsection \<open>Polymorphic fields\<close>

text \<open>
  The fields of a tree with their response paths. The fields of an inline fragment stand
  at the level of the fragment.
\<close>

fun located :: "string list \<Rightarrow> selection \<Rightarrow> (string list \<times> selection) list" where
  "located pre (ScalarField al args name storageKey) =
     [(pre @ [response_key al name], ScalarField al args name storageKey)]"
| "located pre (LinkedField al args concreteType name plural sels storageKey) =
     (pre @ [response_key al name],
      LinkedField al args concreteType name plural sels storageKey) #
     concat (map (located (pre @ [response_key al name])) sels)"
| "located pre (InlineFragment sels ty abstractKey) = concat (map (located pre) sels)"
| "located pre (TypeDiscriminator abstractKey) = []"
| "located pre (FragmentSpread args name) = []"

definition tree_located :: "selection list \<Rightarrow> (string list \<times> selection) list" where
  "tree_located sels = concat (map (located []) sels)"



definition field_at :: "selection list \<Rightarrow> string list \<Rightarrow> selection option" where
  "field_at sels p = map_of (tree_located sels) p"

text \<open>
  The parts of the selections of a polymorphic field: the type tag is the scalar field
  \<^verbatim>\<open>__typename\<close>; the branches are the inline fragments; the abstract capability is what
  remains, the fields and discriminators selected whatever the concrete type.
\<close>

definition type_tag :: selection where
  "type_tag = ScalarField None None ''__typename'' None"


fun is_discriminator :: "selection \<Rightarrow> bool" where
  "is_discriminator (TypeDiscriminator abstractKey) = True"
| "is_discriminator s = False"







section \<open>The trees of SessionDetailsQuery with the shared subtree copied\<close>




section \<open>The container build\<close>













section \<open>Facts about the two modules\<close>

subsection \<open>What the two query texts declare\<close>

lemma SessionDetailsQuery_events:
  "parse_events SessionDetailsQuery_text =
    [VarDeclared ''id'',
     FieldAt None [''session''],
     VarBound ''id'',
     FieldAt None [''session'', ''__typename''],
     FieldAt None [''session'', ''numTraces''],
     FieldAt None [''session'', ''tokenUsage''],
     FieldAt None [''session'', ''tokenUsage'', ''total''],
     FieldAt None [''session'', ''tokenUsage'', ''completion''],
     FieldAt None [''session'', ''tokenUsage'', ''prompt''],
     FieldAt None [''session'', ''sessionId''],
     FieldAt None [''session'', ''latencyP50''],
     FieldAt None [''session'', ''traces''],
     FieldAt None [''session'', ''traces'', ''edges''],
     FieldAt None [''session'', ''traces'', ''edges'', ''trace''],
     FieldAt None [''session'', ''traces'', ''edges'', ''trace'', ''rootSpan''],
     FieldAt None [''session'', ''traces'', ''edges'', ''trace'', ''rootSpan'', ''id''],
     FieldAt None [''session'', ''traces'', ''edges'', ''trace'', ''rootSpan'', ''attributes''],
     FieldAt None [''session'', ''traces'', ''edges'', ''trace'', ''rootSpan'', ''project''],
     FieldAt None [''session'', ''traces'', ''edges'', ''trace'', ''rootSpan'', ''project'',
       ''id''],
     FieldAt None [''session'', ''traces'', ''edges'', ''trace'', ''rootSpan'', ''input''],
     FieldAt None [''session'', ''traces'', ''edges'', ''trace'', ''rootSpan'', ''input'',
       ''value''],
     FieldAt None [''session'', ''traces'', ''edges'', ''trace'', ''rootSpan'', ''output''],
     FieldAt None [''session'', ''traces'', ''edges'', ''trace'', ''rootSpan'', ''output'',
       ''value''],
     FieldAt None [''session'', ''traces'', ''edges'', ''trace'', ''rootSpan'',
       ''cumulativeTokenCountTotal''],
     FieldAt None [''session'', ''traces'', ''edges'', ''trace'', ''rootSpan'',
       ''cumulativeTokenCountCompletion''],
     FieldAt None [''session'', ''traces'', ''edges'', ''trace'', ''rootSpan'',
       ''cumulativeTokenCountPrompt''],
     FieldAt None [''session'', ''traces'', ''edges'', ''trace'', ''rootSpan'', ''latencyMs''],
     FieldAt None [''session'', ''traces'', ''edges'', ''trace'', ''rootSpan'', ''startTime''],
     FieldAt None [''session'', ''traces'', ''edges'', ''trace'', ''rootSpan'',
       ''spanAnnotations''],
     FieldAt None [''session'', ''traces'', ''edges'', ''trace'', ''rootSpan'',
       ''spanAnnotations'', ''name''],
     FieldAt None [''session'', ''traces'', ''edges'', ''trace'', ''rootSpan'',
       ''spanAnnotations'', ''label''],
     FieldAt None [''session'', ''traces'', ''edges'', ''trace'', ''rootSpan'',
       ''spanAnnotations'', ''score''],
     FieldAt None [''session'', ''traces'', ''edges'', ''trace'', ''rootSpan'',
       ''spanAnnotations'', ''explanation''],
     FieldAt None [''session'', ''traces'', ''edges'', ''trace'', ''rootSpan'',
       ''spanAnnotations'', ''annotatorKind''],
     FieldAt None [''session'', ''traces'', ''edges'', ''trace'', ''rootSpan'', ''context''],
     FieldAt None [''session'', ''traces'', ''edges'', ''trace'', ''rootSpan'', ''context'',
       ''traceId''],
     FieldAt None [''session'', ''traces'', ''edges'', ''trace'', ''rootSpan'', ''context'',
       ''spanId''],
     FieldAt None [''session'', ''__isNode''],
     FieldAt None [''session'', ''id'']]"
  by code_simp

lemma ViewerContextRefetchQuery_events:
  "parse_events ViewerContextRefetchQuery_text =
    [SpreadAt None [] ''ViewerContext_viewer'',
     FieldAt (Some ''APIKeysTableFragment'') [''apiKeys''],
     FieldAt (Some ''APIKeysTableFragment'') [''apiKeys'', ''id''],
     FieldAt (Some ''APIKeysTableFragment'') [''apiKeys'', ''name''],
     FieldAt (Some ''APIKeysTableFragment'') [''apiKeys'', ''description''],
     FieldAt (Some ''APIKeysTableFragment'') [''apiKeys'', ''createdAt''],
     FieldAt (Some ''APIKeysTableFragment'') [''apiKeys'', ''expiresAt''],
     FieldAt (Some ''APIKeysTableFragment'') [''id''],
     FieldAt (Some ''ViewerContext_viewer'') [''viewer''],
     FieldAt (Some ''ViewerContext_viewer'') [''viewer'', ''id''],
     FieldAt (Some ''ViewerContext_viewer'') [''viewer'', ''username''],
     FieldAt (Some ''ViewerContext_viewer'') [''viewer'', ''email''],
     FieldAt (Some ''ViewerContext_viewer'') [''viewer'', ''profilePictureUrl''],
     FieldAt (Some ''ViewerContext_viewer'') [''viewer'', ''role''],
     FieldAt (Some ''ViewerContext_viewer'') [''viewer'', ''role'', ''name''],
     SpreadAt (Some ''ViewerContext_viewer'') [''viewer''] ''APIKeysTableFragment'']"
  by code_simp

lemma SessionDetailsQuery_module:
  "node SessionDetailsQuery = SessionDetailsQuery_node"
  "data_type SessionDetailsQuery = SessionDetailsQuery_data"
  "variables_type SessionDetailsQuery = SessionDetailsQuery_variables"
  by (simp_all add: SessionDetailsQuery_def)

lemma ViewerContextRefetchQuery_module:
  "node ViewerContextRefetchQuery = ViewerContextRefetchQuery_node"
  "data_type ViewerContextRefetchQuery = ViewerContextRefetchQuery_data"
  "variables_type ViewerContextRefetchQuery = ViewerContextRefetchQuery_variables"
  by (simp_all add: ViewerContextRefetchQuery_def)

lemma SessionDetailsQuery_params:
  "params_text (params SessionDetailsQuery_node) = SessionDetailsQuery_text"
  "cacheID (params SessionDetailsQuery_node) = ''44f2433d50767bdcd9eb7c62d1f2cbb7''"
  by (simp_all add: SessionDetailsQuery_node_def)

lemma ViewerContextRefetchQuery_params:
  "params_text (params ViewerContextRefetchQuery_node) = ViewerContextRefetchQuery_text"
  "cacheID (params ViewerContextRefetchQuery_node) = ''4c8790abe3ec8e077913422cb62c6b3f''"
  by (simp_all add: ViewerContextRefetchQuery_node_def)

lemmas module_simps =
  SessionDetailsQuery_module ViewerContextRefetchQuery_module
  SessionDetailsQuery_params ViewerContextRefetchQuery_params

lemma SessionDetailsQuery_text_operation:
  "set (text_paths SessionDetailsQuery_text) =
     set (tree_paths (operation_selections (operation SessionDetailsQuery_node)))"
  unfolding text_paths_def SessionDetailsQuery_events by code_simp

lemma ViewerContextRefetchQuery_text_operation:
  "set (text_paths ViewerContextRefetchQuery_text) =
     set (tree_paths (operation_selections (operation ViewerContextRefetchQuery_node)))"
  unfolding text_paths_def ViewerContextRefetchQuery_events by code_simp

lemma SessionDetailsQuery_data_fragment:
  "set (type_paths SessionDetailsQuery_data) =
     set (tree_paths (fragment_selections (fragment SessionDetailsQuery_node)))"
  by code_simp

lemma SessionDetailsQuery_data_text:
  "set (type_paths SessionDetailsQuery_data) \<subseteq> set (text_paths SessionDetailsQuery_text)"
  unfolding text_paths_def SessionDetailsQuery_events by code_simp

lemma SessionDetailsQuery_text_only:
  "set (text_paths SessionDetailsQuery_text) - set (type_paths SessionDetailsQuery_data) =
     {[''session'', ''__typename''], [''session'', ''__isNode''], [''session'', ''id'']}"
  unfolding text_paths_def SessionDetailsQuery_events by code_simp

lemma ViewerContextRefetchQuery_data_paths:
  "type_paths ViewerContextRefetchQuery_data = []"
  "type_spreads ViewerContextRefetchQuery_data = [''ViewerContext_viewer'']"
  "tree_paths (fragment_selections (fragment ViewerContextRefetchQuery_node)) = []"
  "concat (map selection_spreads (fragment_selections (fragment ViewerContextRefetchQuery_node))) =
     [''ViewerContext_viewer'']"
  by (simp_all add: ViewerContextRefetchQuery_data_def ViewerContextRefetchQuery_node_def
      tree_paths_def)

lemma SessionDetailsQuery_spreads:
  "type_spreads SessionDetailsQuery_data = []"
  "concat (map selection_spreads (fragment_selections (fragment SessionDetailsQuery_node))) = []"
  by code_simp+


lemma SessionDetailsQuery_sites:
  "binding_sites SessionDetailsQuery_text = [''id'']"
  "text_variables SessionDetailsQuery_text = [''id'']"
  unfolding binding_sites_def text_variables_def SessionDetailsQuery_events by simp_all

lemma ViewerContextRefetchQuery_sites:
  "binding_sites ViewerContextRefetchQuery_text = []"
  "text_variables ViewerContextRefetchQuery_text = []"
  unfolding binding_sites_def text_variables_def ViewerContextRefetchQuery_events by simp_all

lemma declared_names_simps:
  "declared_names SessionDetailsQuery = [''id'']"
  "declared_names ViewerContextRefetchQuery = []"
  by (simp_all add: declared_names_def SessionDetailsQuery_v0_def module_simps
      SessionDetailsQuery_node_def ViewerContextRefetchQuery_node_def)

lemma tree_variables_simps:
  "tree_variables (operation_selections (operation SessionDetailsQuery_node)) = [''id'']"
  "tree_variables (operation_selections (operation ViewerContextRefetchQuery_node)) = []"
  by code_simp+

subsection \<open>Responses that conform project without error\<close>




subsection \<open>The session field of SessionDetailsQuery\<close>

lemma SessionDetailsQuery_data_session:
  "SessionDetailsQuery_data =
     TObject [(''session'', False,
       TObject (properties (type_at SessionDetailsQuery_data [''session''])))]"
  by (simp add: SessionDetailsQuery_data_def properties_def)













subsection \<open>What the modules expose, and their storage keys\<close>

lemma SessionDetailsQuery_exposes:
  "params_text (params SessionDetailsQuery_node) \<noteq> [] \<and>
   length (cacheID (params SessionDetailsQuery_node)) = 32 \<and>
   list_all is_hex (cacheID (params SessionDetailsQuery_node)) \<and>
   map la_name (fragment_argumentDefinitions (fragment SessionDetailsQuery_node)) =
     variable_names SessionDetailsQuery_variables \<and>
   fragment_argumentDefinitions (fragment SessionDetailsQuery_node) =
     operation_argumentDefinitions (operation SessionDetailsQuery_node) \<and>
   fragment_kind (fragment SessionDetailsQuery_node) = ''Fragment'' \<and>
   fragment_selections (fragment SessionDetailsQuery_node) \<noteq> [] \<and>
   operation_kind (operation SessionDetailsQuery_node) = ''Operation'' \<and>
   operation_selections (operation SessionDetailsQuery_node) \<noteq> []"
  by (simp add: SessionDetailsQuery_node_def SessionDetailsQuery_text_def is_hex_def
      SessionDetailsQuery_v0_def SessionDetailsQuery_variables_def variable_names_def)

lemma ViewerContextRefetchQuery_exposes:
  "params_text (params ViewerContextRefetchQuery_node) \<noteq> [] \<and>
   length (cacheID (params ViewerContextRefetchQuery_node)) = 32 \<and>
   list_all is_hex (cacheID (params ViewerContextRefetchQuery_node)) \<and>
   map la_name (fragment_argumentDefinitions (fragment ViewerContextRefetchQuery_node)) =
     variable_names ViewerContextRefetchQuery_variables \<and>
   fragment_argumentDefinitions (fragment ViewerContextRefetchQuery_node) =
     operation_argumentDefinitions (operation ViewerContextRefetchQuery_node) \<and>
   fragment_kind (fragment ViewerContextRefetchQuery_node) = ''Fragment'' \<and>
   fragment_selections (fragment ViewerContextRefetchQuery_node) \<noteq> [] \<and>
   operation_kind (operation ViewerContextRefetchQuery_node) = ''Operation'' \<and>
   operation_selections (operation ViewerContextRefetchQuery_node) \<noteq> []"
  by (simp add: ViewerContextRefetchQuery_node_def ViewerContextRefetchQuery_text_def is_hex_def
      ViewerContextRefetchQuery_variables_def variable_names_def)

lemma SessionDetailsQuery_metadata:
  "type_tag \<in> set (tree_nodes (operation_selections (operation SessionDetailsQuery_node))) \<and>
   TypeDiscriminator ''__isNode'' \<in>
     set (tree_nodes (operation_selections (operation SessionDetailsQuery_node))) \<and>
   type_tag \<notin> set (tree_nodes (fragment_selections (fragment SessionDetailsQuery_node))) \<and>
   \<not> list_ex is_discriminator
     (tree_nodes (fragment_selections (fragment SessionDetailsQuery_node))) \<and>
   set (tree_paths (operation_selections (operation SessionDetailsQuery_node))) -
     set (tree_paths (fragment_selections (fragment SessionDetailsQuery_node))) =
     {[''session'', ''__typename''], [''session'', ''__isNode''], [''session'', ''id'']}"
  by code_simp

lemma SessionDetailsQuery_storage_keys:
  "list_all (\<lambda>s. is_field s \<longrightarrow>
       (storageKey_of s \<noteq> None) = all_args_literal s \<and>
       storageKey_of s = literal_storageKey (name_of s) (args_of s))
     (tree_nodes (fragment_selections (fragment SessionDetailsQuery_node)) @
      tree_nodes (operation_selections (operation SessionDetailsQuery_node)))"
  by code_simp

lemma ViewerContextRefetchQuery_storage_keys:
  "list_all (\<lambda>s. is_field s \<longrightarrow>
       (storageKey_of s \<noteq> None) = all_args_literal s \<and>
       storageKey_of s = literal_storageKey (name_of s) (args_of s))
     (tree_nodes (fragment_selections (fragment ViewerContextRefetchQuery_node)) @
      tree_nodes (operation_selections (operation ViewerContextRefetchQuery_node)))"
  by code_simp

lemma SessionDetailsQuery_latencyP50:
  "ScalarField (Some ''latencyP50'') (Some [Literal ''probability'' ''0.5''])
      ''traceLatencyMsQuantile'' (Some ''traceLatencyMsQuantile(probability:0.5)'')
     \<in> set (tree_nodes (fragment_selections (fragment SessionDetailsQuery_node)) @
      tree_nodes (operation_selections (operation SessionDetailsQuery_node))) \<and>
   map_option (\<lambda>s. (args_of s, storageKey_of s))
     (field_at (operation_selections (operation SessionDetailsQuery_node)) [''session'']) =
     Some (Some [Variable ''id'' ''id''], None)"
  by code_simp

section \<open>C1: the response shape and the query text\<close>

text \<open>
  Claim C1 says that the field paths of the exported \<^verbatim>\<open>$data\<close> type are exactly the field
  paths that the query text declares. For SessionDetailsQuery this fails: the text
  declares \<^verbatim>\<open>session.id\<close> (as it does \<^verbatim>\<open>session.__typename\<close> and \<^verbatim>\<open>session.__isNode\<close>), and the
  \<^verbatim>\<open>$data\<close> type has no such property.
\<close>

theorem response_shape_counterexample:
  "[''session'', ''id''] \<in> set (text_paths (params_text (params (node SessionDetailsQuery)))) \<and>
   [''session'', ''id''] \<notin> set (type_paths (data_type SessionDetailsQuery)) \<and>
   set (type_paths (data_type SessionDetailsQuery)) \<noteq>
     set (text_paths (params_text (params (node SessionDetailsQuery))))"
proof -
  have "[''session'', ''id''] \<in>
      set (text_paths SessionDetailsQuery_text) - set (type_paths SessionDetailsQuery_data)"
    unfolding SessionDetailsQuery_text_only by simp
  then show ?thesis unfolding module_simps by auto
qed

text \<open>
  Claim C1, as amended. For every module of the repository: the field paths of the
  \<^verbatim>\<open>$data\<close> type are exactly the field paths of the fragment tree, and the fragments it
  refers to are exactly the fragments spread there; every field path of the \<^verbatim>\<open>$data\<close>
  type is declared in the query text; and the field paths that the query text declares
  are exactly those of the operation tree. For SessionDetailsQuery the paths that the text
  declares and the \<^verbatim>\<open>$data\<close> type leaves out are \<^verbatim>\<open>session.__typename\<close>,
  \<^verbatim>\<open>session.__isNode\<close> and \<^verbatim>\<open>session.id\<close>, and no others.
\<close>

theorem response_shape_paths:
  "(\<forall>m \<in> set bindings.
      set (type_paths (data_type m)) = set (tree_paths (fragment_selections (fragment (node m)))) \<and>
      set (type_spreads (data_type m)) =
        set (concat (map selection_spreads (fragment_selections (fragment (node m))))) \<and>
      set (type_paths (data_type m)) \<subseteq> set (text_paths (params_text (params (node m)))) \<and>
      set (text_paths (params_text (params (node m)))) =
        set (tree_paths (operation_selections (operation (node m))))) \<and>
   set (text_paths (params_text (params (node SessionDetailsQuery)))) -
     set (type_paths (data_type SessionDetailsQuery)) =
     {[''session'', ''__typename''], [''session'', ''__isNode''], [''session'', ''id'']}"
proof -
  define agrees where "agrees m \<longleftrightarrow>
      set (type_paths (data_type m)) = set (tree_paths (fragment_selections (fragment (node m)))) \<and>
      set (type_spreads (data_type m)) =
        set (concat (map selection_spreads (fragment_selections (fragment (node m))))) \<and>
      set (type_paths (data_type m)) \<subseteq> set (text_paths (params_text (params (node m)))) \<and>
      set (text_paths (params_text (params (node m)))) =
        set (tree_paths (operation_selections (operation (node m))))" for m :: generated_module
  have s: "agrees SessionDetailsQuery"
    unfolding agrees_def module_simps
    using SessionDetailsQuery_data_fragment SessionDetailsQuery_data_text
      SessionDetailsQuery_text_operation
    by (simp only: SessionDetailsQuery_spreads simp_thms)
  have v: "agrees ViewerContextRefetchQuery"
    unfolding agrees_def module_simps
    using ViewerContextRefetchQuery_text_operation
    by (simp only: ViewerContextRefetchQuery_data_paths list.set empty_subsetI simp_thms)
  have "\<forall>m \<in> set bindings. agrees m"
    using s v by (simp add: bindings_def)
  moreover have "set (text_paths (params_text (params (node SessionDetailsQuery)))) -
     set (type_paths (data_type SessionDetailsQuery)) =
     {[''session'', ''__typename''], [''session'', ''__isNode''], [''session'', ''id'']}"
    unfolding module_simps by (rule SessionDetailsQuery_text_only)
  ultimately show ?thesis unfolding agrees_def by (rule conjI)
qed

text \<open>The amended claim C1 at SessionDetailsQuery.\<close>

theorem response_shape_paths_witness:
  "SessionDetailsQuery \<in> set bindings \<and>
   set (type_paths (data_type SessionDetailsQuery)) =
     set (tree_paths (fragment_selections (fragment (node SessionDetailsQuery)))) \<and>
   set (type_paths (data_type SessionDetailsQuery)) \<subseteq>
     set (text_paths (params_text (params (node SessionDetailsQuery))))"
proof -
  have m: "SessionDetailsQuery \<in> set bindings" by (simp add: bindings_def)
  from bspec [OF conjunct1 [OF response_shape_paths] m] m show ?thesis by blast
qed

section \<open>C2: the cache identity\<close>



section \<open>C3: the inline fragment on ProjectSession\<close>



section \<open>C4: the required field total\<close>

text \<open>
  Claim C4. Let a response give \<^verbatim>\<open>session\<close> an object whose \<^verbatim>\<open>tokenUsage\<close> is an object.
  If \<^verbatim>\<open>total\<close> is missing from it, the response does not conform to the response type of
  SessionDetailsQuery. If the other properties of \<^verbatim>\<open>tokenUsage\<close> and of \<^verbatim>\<open>session\<close> are
  as the type declares them, the response conforms exactly when \<^verbatim>\<open>total\<close> is present
  and a number.
\<close>

theorem token_usage_total_required:
  assumes "member r ''session'' = Some (JObj s)"
    and "member s ''tokenUsage'' = Some (JObj tu)"
  shows "(member tu ''total'' = None \<longrightarrow> \<not> conforms (data_type SessionDetailsQuery) (JObj r)) \<and>
    (props_conform (other_properties ''tokenUsage''
         (type_at (data_type SessionDetailsQuery) [''session''])) s \<and>
     props_conform (other_properties ''total''
         (type_at (data_type SessionDetailsQuery) [''session'', ''tokenUsage''])) tu \<longrightarrow>
       conforms (data_type SessionDetailsQuery) (JObj r) =
         (\<exists>n. member tu ''total'' = Some (JNum n)))"
proof -
  define rest where "rest = drop 4 (properties (type_at SessionDetailsQuery_data [''session'']))"
  have session: "properties (type_at SessionDetailsQuery_data [''session'']) =
     (''latencyP50'', True, TNullable TNumber) #
     (''numTraces'', True, TNumber) #
     (''sessionId'', True, TString) #
     (''tokenUsage'', True, TObject [
        (''completion'', False, TNumber),
        (''prompt'', False, TNumber),
        (''total'', False, TNumber)]) # rest"
    and others: "other_properties ''tokenUsage'' (type_at SessionDetailsQuery_data [''session'']) =
     (''latencyP50'', True, TNullable TNumber) #
     (''numTraces'', True, TNumber) #
     (''sessionId'', True, TString) # rest"
    and usage: "other_properties ''total''
        (type_at SessionDetailsQuery_data [''session'', ''tokenUsage'']) =
     [(''completion'', False, TNumber), (''prompt'', False, TNumber)]"
    by (simp_all add: rest_def SessionDetailsQuery_data_def properties_def other_properties_def)
  have c: "conforms SessionDetailsQuery_data (JObj r) =
      props_conform (properties (type_at SessionDetailsQuery_data [''session''])) s"
    using assms(1) by (subst SessionDetailsQuery_data_session) simp
  have n: "(case v of JNum n \<Rightarrow> True | _ \<Rightarrow> False) = (\<exists>n. v = JNum n)" for v
    by (cases v) simp_all
  show ?thesis
    unfolding SessionDetailsQuery_module c session others usage
    using assms(2) by (auto simp add: n split: option.splits)
qed

text \<open>
  Claim C4 at two responses that differ in \<^verbatim>\<open>total\<close> only: the one without it is
  rejected, the one with \<^verbatim>\<open>total: 12\<close> is accepted.
\<close>

theorem token_usage_total_required_witness:
  "\<not> conforms (data_type SessionDetailsQuery)
      (JObj [(''session'', JObj [(''__typename'', JStr ''ProjectSession''),
         (''tokenUsage'', JObj [(''completion'', JNum 7), (''prompt'', JNum 5)])])]) \<and>
   conforms (data_type SessionDetailsQuery)
      (JObj [(''session'', JObj [(''__typename'', JStr ''ProjectSession''),
         (''tokenUsage'', JObj [(''total'', JNum 12), (''completion'', JNum 7),
            (''prompt'', JNum 5)])])])"
proof -
  let ?u1 = "[(''completion'', JNum 7), (''prompt'', JNum 5)]"
  let ?u2 = "[(''total'', JNum 12), (''completion'', JNum 7), (''prompt'', JNum 5)]"
  let ?s1 = "[(''__typename'', JStr ''ProjectSession''), (''tokenUsage'', JObj ?u1)]"
  let ?s2 = "[(''__typename'', JStr ''ProjectSession''), (''tokenUsage'', JObj ?u2)]"
  have r1: "member [(''session'', JObj ?s1)] ''session'' = Some (JObj ?s1)"
    and r2: "member [(''session'', JObj ?s2)] ''session'' = Some (JObj ?s2)"
    and u1: "member ?s1 ''tokenUsage'' = Some (JObj ?u1)"
    and u2: "member ?s2 ''tokenUsage'' = Some (JObj ?u2)"
    and o1: "member ?u1 ''total'' = None"
    and o2: "member ?u2 ''total'' = Some (JNum 12)"
    by (simp_all add: member_def)
  have p: "props_conform (other_properties ''tokenUsage''
         (type_at (data_type SessionDetailsQuery) [''session''])) ?s2"
    by (simp add: SessionDetailsQuery_module SessionDetailsQuery_data_def properties_def
        other_properties_def member_def)
  have q: "props_conform (other_properties ''total''
         (type_at (data_type SessionDetailsQuery) [''session'', ''tokenUsage''])) ?u2"
    by (simp add: SessionDetailsQuery_module SessionDetailsQuery_data_def properties_def
        other_properties_def member_def)
  from token_usage_total_required [OF r1 u1] o1
  have "\<not> conforms (data_type SessionDetailsQuery) (JObj [(''session'', JObj ?s1)])"
    by blast
  moreover from token_usage_total_required [OF r2 u2] p q o2
  have "conforms (data_type SessionDetailsQuery) (JObj [(''session'', JObj ?s2)])"
    by blast
  ultimately show ?thesis by (rule conjI)
qed

section \<open>C5: variables and their binding sites\<close>

text \<open>
  Claim C5. For every module of the repository, each variable declared in
  \<^verbatim>\<open>argumentDefinitions\<close> occurs exactly once in the selection sets of the query text as
  the value of an argument; every variable that the text binds or declares is among the
  declared ones; and the binding sites of the text are those of the operation tree. For
  SessionDetailsQuery the one site is \<^verbatim>\<open>node(id: $id)\<close>.
\<close>

theorem variables_bound_once:
  "\<forall>m \<in> set bindings.
     (\<forall>v \<in> set (declared_names m).
        count_list (binding_sites (params_text (params (node m)))) v = 1) \<and>
     set (binding_sites (params_text (params (node m)))) \<subseteq> set (declared_names m) \<and>
     set (text_variables (params_text (params (node m)))) \<subseteq> set (declared_names m) \<and>
     binding_sites (params_text (params (node m))) =
       tree_variables (operation_selections (operation (node m)))"
  by (simp add: bindings_def SessionDetailsQuery_sites ViewerContextRefetchQuery_sites
      declared_names_simps tree_variables_simps module_simps)

text \<open>Claim C5 at the variable \<^verbatim>\<open>id\<close> of SessionDetailsQuery.\<close>

theorem variables_bound_once_witness:
  "SessionDetailsQuery \<in> set bindings \<and> ''id'' \<in> set (declared_names SessionDetailsQuery) \<and>
   count_list (binding_sites (params_text (params (node SessionDetailsQuery)))) ''id'' = 1"
proof -
  have m: "SessionDetailsQuery \<in> set bindings" by (simp add: bindings_def)
  have v: "''id'' \<in> set (declared_names SessionDetailsQuery)" by (simp add: declared_names_simps)
  from bspec [OF conjunct1 [OF bspec [OF variables_bound_once m]] v] m v
  show ?thesis by blast
qed

section \<open>C6: what a binding exposes\<close>

text \<open>
  Claim C6. Every module of the repository exposes a query text that is not empty, a
  cache identity of 32 hexadecimal digits, a variable schema (the argument definitions,
  the same in both trees, naming the properties of the variables type), a fragment tree
  and an operation tree. In SessionDetailsQuery the operation tree contains the scalar
  field \<^verbatim>\<open>__typename\<close> and the type discriminator \<^verbatim>\<open>__isNode\<close>; the fragment tree
  contains neither, and the paths of the operation tree that the fragment tree lacks are
  \<^verbatim>\<open>session.__typename\<close>, \<^verbatim>\<open>session.__isNode\<close> and \<^verbatim>\<open>session.id\<close>.
\<close>

theorem binding_exposes:
  "(\<forall>m \<in> set bindings.
      params_text (params (node m)) \<noteq> [] \<and>
      length (cacheID (params (node m))) = 32 \<and>
      list_all is_hex (cacheID (params (node m))) \<and>
      map la_name (fragment_argumentDefinitions (fragment (node m))) =
        variable_names (variables_type m) \<and>
      fragment_argumentDefinitions (fragment (node m)) =
        operation_argumentDefinitions (operation (node m)) \<and>
      fragment_kind (fragment (node m)) = ''Fragment'' \<and>
      fragment_selections (fragment (node m)) \<noteq> [] \<and>
      operation_kind (operation (node m)) = ''Operation'' \<and>
      operation_selections (operation (node m)) \<noteq> []) \<and>
   type_tag \<in> set (tree_nodes (operation_selections (operation (node SessionDetailsQuery)))) \<and>
   TypeDiscriminator ''__isNode'' \<in>
     set (tree_nodes (operation_selections (operation (node SessionDetailsQuery)))) \<and>
   type_tag \<notin> set (tree_nodes (fragment_selections (fragment (node SessionDetailsQuery)))) \<and>
   \<not> list_ex is_discriminator
     (tree_nodes (fragment_selections (fragment (node SessionDetailsQuery)))) \<and>
   set (tree_paths (operation_selections (operation (node SessionDetailsQuery)))) -
     set (tree_paths (fragment_selections (fragment (node SessionDetailsQuery)))) =
     {[''session'', ''__typename''], [''session'', ''__isNode''], [''session'', ''id'']}"
proof -
  define exposes where "exposes m \<longleftrightarrow>
      params_text (params (node m)) \<noteq> [] \<and>
      length (cacheID (params (node m))) = 32 \<and>
      list_all is_hex (cacheID (params (node m))) \<and>
      map la_name (fragment_argumentDefinitions (fragment (node m))) =
        variable_names (variables_type m) \<and>
      fragment_argumentDefinitions (fragment (node m)) =
        operation_argumentDefinitions (operation (node m)) \<and>
      fragment_kind (fragment (node m)) = ''Fragment'' \<and>
      fragment_selections (fragment (node m)) \<noteq> [] \<and>
      operation_kind (operation (node m)) = ''Operation'' \<and>
      operation_selections (operation (node m)) \<noteq> []" for m :: generated_module
  have s: "exposes SessionDetailsQuery"
    unfolding exposes_def SessionDetailsQuery_module by (rule SessionDetailsQuery_exposes)
  have v: "exposes ViewerContextRefetchQuery"
    unfolding exposes_def ViewerContextRefetchQuery_module
    by (rule ViewerContextRefetchQuery_exposes)
  have "\<forall>m \<in> set bindings. exposes m"
    using s v by (simp add: bindings_def)
  moreover note SessionDetailsQuery_metadata
  ultimately show ?thesis
    unfolding exposes_def SessionDetailsQuery_module by (rule conjI)
qed

text \<open>Claim C6 at ViewerContextRefetchQuery.\<close>

theorem binding_exposes_witness:
  "ViewerContextRefetchQuery \<in> set bindings \<and>
   params_text (params (node ViewerContextRefetchQuery)) \<noteq> [] \<and>
   length (cacheID (params (node ViewerContextRefetchQuery))) = 32 \<and>
   operation_selections (operation (node ViewerContextRefetchQuery)) \<noteq> []"
proof -
  have m: "ViewerContextRefetchQuery \<in> set bindings" by (simp add: bindings_def)
  from bspec [OF conjunct1 [OF binding_exposes] m] m show ?thesis by blast
qed

section \<open>C7: the shared subtree\<close>


section \<open>C8: polymorphic fields\<close>



section \<open>C9: the order of the build steps\<close>


section \<open>C10: storage keys\<close>

text \<open>
  Claim C10. In both trees of both modules, a field has a storage key exactly when it has
  arguments and all of them are literals, and the key is then the field name followed by
  the serialized arguments; otherwise the key is \<^verbatim>\<open>null\<close>. The field aliased \<^verbatim>\<open>latencyP50\<close>
  has the key \<^verbatim>\<open>traceLatencyMsQuantile(probability:0.5)\<close>; the field \<^verbatim>\<open>node\<close>, whose argument
  is bound to the variable \<^verbatim>\<open>id\<close>, has none.
\<close>

theorem storage_keys:
  "(\<forall>m \<in> set bindings. \<forall>s \<in> set (module_nodes m). is_field s \<longrightarrow>
       (storageKey_of s \<noteq> None) = all_args_literal s \<and>
       storageKey_of s = literal_storageKey (name_of s) (args_of s)) \<and>
   ScalarField (Some ''latencyP50'') (Some [Literal ''probability'' ''0.5''])
      ''traceLatencyMsQuantile'' (Some ''traceLatencyMsQuantile(probability:0.5)'')
     \<in> set (module_nodes SessionDetailsQuery) \<and>
   map_option (\<lambda>s. (args_of s, storageKey_of s))
     (field_at (operation_selections (operation (node SessionDetailsQuery))) [''session'']) =
     Some (Some [Variable ''id'' ''id''], None)"
proof -
  define keyed where "keyed m \<longleftrightarrow>
      (\<forall>s \<in> set (module_nodes m). is_field s \<longrightarrow>
         (storageKey_of s \<noteq> None) = all_args_literal s \<and>
         storageKey_of s = literal_storageKey (name_of s) (args_of s))"
    for m :: generated_module
  have s: "keyed SessionDetailsQuery"
    unfolding keyed_def module_nodes_def SessionDetailsQuery_module Ball_set
    by (rule SessionDetailsQuery_storage_keys)
  have v: "keyed ViewerContextRefetchQuery"
    unfolding keyed_def module_nodes_def ViewerContextRefetchQuery_module Ball_set
    by (rule ViewerContextRefetchQuery_storage_keys)
  have "\<forall>m \<in> set bindings. keyed m"
    using s v by (simp add: bindings_def)
  moreover note SessionDetailsQuery_latencyP50
  ultimately show ?thesis
    unfolding keyed_def module_nodes_def SessionDetailsQuery_module by (rule conjI)
qed

text \<open>Claim C10 at the field aliased \<^verbatim>\<open>latencyP50\<close> of SessionDetailsQuery.\<close>

theorem storage_keys_witness:
  "SessionDetailsQuery \<in> set bindings \<and>
   ScalarField (Some ''latencyP50'') (Some [Literal ''probability'' ''0.5''])
      ''traceLatencyMsQuantile'' (Some ''traceLatencyMsQuantile(probability:0.5)'')
     \<in> set (module_nodes SessionDetailsQuery) \<and>
   literal_storageKey ''traceLatencyMsQuantile'' (Some [Literal ''probability'' ''0.5'']) =
     Some ''traceLatencyMsQuantile(probability:0.5)''"
proof -
  have m: "SessionDetailsQuery \<in> set bindings" by (simp add: bindings_def)
  have s: "ScalarField (Some ''latencyP50'') (Some [Literal ''probability'' ''0.5''])
      ''traceLatencyMsQuantile'' (Some ''traceLatencyMsQuantile(probability:0.5)'')
     \<in> set (module_nodes SessionDetailsQuery)"
    using storage_keys by blast
  from bspec [OF bspec [OF conjunct1 [OF storage_keys] m] s] m s show ?thesis by simp
qed

end
